theory Spec2Isabelle
  imports Complex_Main
begin

section \<open>Values held by a result row\<close>

text \<open>
  A result row of the query engine binds each selected variable to a graph node or
  leaves it unbound (\<open>None\<close> in Python). The nodes of the engine are IRIs, blank nodes
  and literals; each of them is a Python string (the IRI, the blank node's name, the
  literal's lexical form), and the notebooks read that string through \<open>.lower()\<close> and
  inside an f-string. A literal object also holds its datatype and, in \<open>value\<close>, the
  Python value that the engine has converted its lexical form to when it built the
  literal, or \<open>None\<close> when there is no such value (an unknown datatype, a lexical form
  that does not convert).
\<close>

text \<open>
  The Python values a literal can hold: a string (a plain or string literal), a boolean,
  an integer, a finite float, and any other object (a Decimal, bytes, a date, a
  duration, a parsed document, a float that is not finite), of which a condition reads
  nothing but its truth value.
\<close>

datatype pyvalue =
    PyStr string
  | PyBool bool
  | PyInt int
  | PyFloat real
  | PyObject bool

datatype node =
    URIRef string
  | BNode string
  | Literal string "string option" "pyvalue option"

fun text_of :: "node \<Rightarrow> string" where
  "text_of (URIRef s) = s"
| "text_of (BNode s) = s"
| "text_of (Literal s dt v) = s"

definition XSD_boolean :: string where
  "XSD_boolean = ''http://www.w3.org/2001/XMLSchema#boolean''"

definition XSD_integer :: string where
  "XSD_integer = ''http://www.w3.org/2001/XMLSchema#integer''"

definition XSD_double :: string where
  "XSD_double = ''http://www.w3.org/2001/XMLSchema#double''"

text \<open>
  \<open>str.lower()\<close> on the ASCII letters; every other character is kept. A string is a
  list of bytes here, and no byte outside \<open>A\<close>..\<open>Z\<close> lowers to a letter of \<open>true\<close>.
\<close>

definition lower_char :: "char \<Rightarrow> char" where
  "lower_char c =
     (case map_of (zip ''ABCDEFGHIJKLMNOPQRSTUVWXYZ'' ''abcdefghijklmnopqrstuvwxyz'') c of
        None \<Rightarrow> c
      | Some d \<Rightarrow> d)"

definition lower :: "string \<Rightarrow> string" where
  "lower s = map lower_char s"

text \<open>Python's \<open>bool(x)\<close> on a value: an empty string, \<open>False\<close> and zero are false.\<close>

fun py_bool :: "pyvalue \<Rightarrow> bool" where
  "py_bool (PyStr s) = (s \<noteq> [])"
| "py_bool (PyBool b) = b"
| "py_bool (PyInt i) = (i \<noteq> 0)"
| "py_bool (PyFloat x) = (x \<noteq> 0)"
| "py_bool (PyObject b) = b"

text \<open>
  The truth value of a node in a condition (\<open>if x\<close>, \<open>x and y\<close>). An IRI and a blank
  node are strings: true when not empty. A literal answers with the truth value of its
  Python value when it has one, and otherwise as a string, by its lexical form:
  \<^verbatim>\<open>if self.value is not None: return bool(self.value)\<close>,
  \<^verbatim>\<open>return len(self) != 0\<close>.
\<close>

fun node_bool :: "node \<Rightarrow> bool" where
  "node_bool (URIRef s) = (s \<noteq> [])"
| "node_bool (BNode s) = (s \<noteq> [])"
| "node_bool (Literal s dt None) = (s \<noteq> [])"
| "node_bool (Literal s dt (Some v)) = py_bool v"

text \<open>An f-string field \<open>{x}\<close>: the node's string, or \<open>None\<close> for an unbound variable.\<close>

definition py_str :: "node option \<Rightarrow> string" where
  "py_str x = (case x of None \<Rightarrow> ''None'' | Some t \<Rightarrow> text_of t)"

section \<open>The schema notebook\<close>

text \<open>
  The query selects \<open>?columnName ?columnTitle ?propertyType ?propertyClass ?unit
  ?required\<close>; the last three come from OPTIONAL patterns.
\<close>

record schema_row =
  columnName :: "node option"
  columnTitle :: "node option"
  propertyType :: "node option"
  propertyClass :: "node option"
  unit :: "node option"
  required :: "node option"

text \<open>
  \<^verbatim>\<open>required_status = "Required" if row.required and row.required.lower() == "true"
                               else "Optional"\<close>
\<close>

definition required_status :: "schema_row \<Rightarrow> string" where
  "required_status row =
     (case required row of
        None \<Rightarrow> ''Optional''
      | Some t \<Rightarrow>
          if node_bool t \<and> lower (text_of t) = ''true'' then ''Required''
          else ''Optional'')"

subsection \<open>Label lookup in the ontology\<close>

text \<open>
  The loaded ontology is an external collaborator, used through
  \<open>battinfo.search_one(iri=x)\<close> alone. It is a parameter of the model: a function from
  the string of the node passed as \<open>iri\<close> (\<open>None\<close> for an unbound variable) to the first
  matching entity, to \<open>None\<close> when nothing matches, or to the error it raises. Of an
  entity the notebook reads \<open>prefLabel\<close>, its list of labels.
\<close>

datatype error =
    AttributeError
  | IndexError
  | NameError
  | OtherError string

record entity =
  prefLabel :: "string list"

type_synonym ontology = "string option \<Rightarrow> error + entity option"

text \<open>
  \<^verbatim>\<open>battinfo.search_one(iri=x).prefLabel[0]\<close>: reading \<open>prefLabel\<close> of \<open>None\<close> raises
  AttributeError, index 0 of an empty list raises IndexError.
\<close>

definition first_prefLabel :: "ontology \<Rightarrow> node option \<Rightarrow> error + string" where
  "first_prefLabel battinfo x =
     (case battinfo (map_option text_of x) of
        Inl e \<Rightarrow> Inl e
      | Inr None \<Rightarrow> Inl AttributeError
      | Inr (Some ent) \<Rightarrow>
          (case prefLabel ent of
             [] \<Rightarrow> Inl IndexError
           | l # ls \<Rightarrow> Inr l))"

subsection \<open>Formatting the rows\<close>

text \<open>
  The body of the loop: the three assignments in the order of the source, then the line
  appended to \<open>output\<close>.
\<close>

definition schema_line :: "ontology \<Rightarrow> schema_row \<Rightarrow> error + string" where
  "schema_line battinfo row =
     (case first_prefLabel battinfo (propertyClass row) of
        Inl e \<Rightarrow> Inl e
      | Inr property_name \<Rightarrow>
          (case first_prefLabel battinfo (unit row) of
             Inl e \<Rightarrow> Inl e
           | Inr unit_name \<Rightarrow>
               Inr (''Column: '' @ py_str (columnName row) @ '' ('' @
                    py_str (columnTitle row) @ ''), '' @
                    ''Property Class: '' @ property_name @ '', Unit: '' @ unit_name @
                    '', Required: '' @ required_status row)))"

text \<open>
  \<^verbatim>\<open>for row in results: ... output.append(...)\<close>. The loop stops at the first row that
  raises; \<open>output\<close> then holds the lines of the rows before it.
\<close>

fun schema_loop :: "ontology \<Rightarrow> schema_row list \<Rightarrow> string list \<Rightarrow> error option \<times> string list" where
  "schema_loop battinfo [] output = (None, output)"
| "schema_loop battinfo (row # rows) output =
     (case schema_line battinfo row of
        Inl e \<Rightarrow> (Some e, output)
      | Inr line \<Rightarrow> schema_loop battinfo rows (output @ [line]))"

text \<open>
  The display step: what it prints, line by line, or the error that ends it. Nothing is
  printed before the loop has finished.
\<close>

definition schema_display :: "ontology \<Rightarrow> schema_row list \<Rightarrow> error + string list" where
  "schema_display battinfo results =
     (case schema_loop battinfo results [] of
        (Some e, output) \<Rightarrow> Inl e
      | (None, output) \<Rightarrow> Inr (''Time-Series Test Data Schema:'' # output))"

section \<open>The electrolyte notebook\<close>

text \<open>
  The query selects \<open>?electrolyte ?electrolyteLabel ?component ?amount ?componentLabel\<close>.
\<close>

record electrolyte_row =
  electrolyte :: "node option"
  electrolyteLabel :: "node option"
  component :: "node option"
  amount :: "node option"
  componentLabel :: "node option"

text \<open>\<^verbatim>\<open>x if x else y\<close>\<close>

definition if_else :: "node option \<Rightarrow> node option \<Rightarrow> node option" where
  "if_else x y =
     (case x of
        None \<Rightarrow> y
      | Some t \<Rightarrow> if node_bool t then x else y)"

text \<open>\<^verbatim>\<open>component_label = row.componentLabel if row.componentLabel else row.component\<close>\<close>

definition component_label :: "electrolyte_row \<Rightarrow> node option" where
  "component_label row = if_else (componentLabel row) (component row)"

text \<open>\<^verbatim>\<open>electrolyte_label = row.electrolyteLabel if row.electrolyteLabel else row.electrolyte\<close>\<close>

definition electrolyte_label :: "electrolyte_row \<Rightarrow> node option" where
  "electrolyte_label row = if_else (electrolyteLabel row) (electrolyte row)"

definition component_line :: "electrolyte_row \<Rightarrow> string" where
  "component_line row =
     ''Component: '' @ py_str (component_label row) @
     '', Volume Fraction: '' @ py_str (amount row)"

text \<open>
  The loop keeps two variables: \<open>electrolyte_label\<close>, which has no value before the first
  row (the outer \<open>None\<close>) and is assigned again by every row, and \<open>output\<close>.
\<close>

fun electrolyte_loop ::
  "electrolyte_row list \<Rightarrow> node option option \<times> string list \<Rightarrow> node option option \<times> string list" where
  "electrolyte_loop [] vars = vars"
| "electrolyte_loop (row # rows) (label, output) =
     electrolyte_loop rows (Some (electrolyte_label row), output @ [component_line row])"

text \<open>
  \<^verbatim>\<open>print(f"Electrolyte: {electrolyte_label}")\<close>, then the lines of \<open>output\<close>.
  Reading a name that has no value raises NameError.
\<close>

definition electrolyte_print :: "node option option \<times> string list \<Rightarrow> error + string list" where
  "electrolyte_print vars =
     (case vars of
        (None, output) \<Rightarrow> Inl NameError
      | (Some label, output) \<Rightarrow> Inr ((''Electrolyte: '' @ py_str label) # output))"

text \<open>
  The display step of a run: no cell before it assigns \<open>electrolyte_label\<close>, and
  \<open>output\<close> starts empty.
\<close>

definition electrolyte_display :: "electrolyte_row list \<Rightarrow> error + string list" where
  "electrolyte_display results = electrolyte_print (electrolyte_loop results (None, []))"

section \<open>The steps of a notebook after the graph is parsed\<close>

text \<open>
  A notebook holds the graph \<open>g\<close>, the query text, \<open>results\<close> and \<open>output\<close>; the
  electrolyte notebook also holds \<open>electrolyte_label\<close>, which has no value until the
  display loop assigns it. The graph is a set of triples. The graph engine is an
  external collaborator: \<open>g.parse\<close> is given by the triples it reads from the document,
  and the selection that a query text denotes on a set of triples is a parameter.
\<close>

type_synonym triple = "node \<times> node \<times> node"

type_synonym 'r engine = "string list \<Rightarrow> triple set \<Rightarrow> 'r list"

record 'r notebook =
  graph :: "triple set"
  query :: "string list"
  results :: "'r list"
  output_var :: "string list"

record electrolyte_notebook = "electrolyte_row notebook" +
  label_var :: "node option option"

definition new_schema_notebook :: "schema_row notebook" where
  "new_schema_notebook = \<lparr>graph = {}, query = [], results = [], output_var = []\<rparr>"

definition new_electrolyte_notebook :: electrolyte_notebook where
  "new_electrolyte_notebook =
     \<lparr>graph = {}, query = [], results = [], output_var = [], label_var = None\<rparr>"

text \<open>\<^verbatim>\<open>g = Graph(); g.parse(data=json.dumps(jsonld_data), format="json-ld")\<close>\<close>

definition parse_cell :: "triple set \<Rightarrow> ('r, 'z) notebook_scheme \<Rightarrow> ('r, 'z) notebook_scheme" where
  "parse_cell parsed s = s\<lparr>graph := parsed\<rparr>"

text \<open>
  The query texts, line by line, with the IRIs of the ontology terms spliced in when the
  text is built.
\<close>

definition schema_query :: "string \<Rightarrow> string list" where
  "schema_query hasMeasurementUnit =
     [[],
      ''PREFIX emmo: <https://w3id.org/emmo/domain/battery/>'',
      ''PREFIX csvw: <http://www.w3.org/ns/csvw#>'',
      ''PREFIX rdfs: <http://www.w3.org/2000/01/rdf-schema#>'',
      ''SELECT ?columnName ?columnTitle ?propertyType ?propertyClass ?unit ?required WHERE {'',
      ''    ?column a csvw:Column ;'',
      ''            csvw:name ?columnName ;'',
      ''            csvw:titles ?columnTitle ;'',
      ''            csvw:propertyUrl ?propertyType .'',
      ''    OPTIONAL { ?column csvw:required ?required . }'',
      ''    OPTIONAL { ?column <'' @ hasMeasurementUnit @ ''> ?unit . }'',
      ''    OPTIONAL { ?propertyType a ?propertyClass . }'',
      ''}'',
      []]"

record electrolyte_iris =
  Electrolyte :: string
  hasSolvent :: string
  hasConstituent :: string
  hasProperty :: string
  hasNumericalPart :: string
  hasNumberValue :: string

definition electrolyte_query :: "electrolyte_iris \<Rightarrow> string list" where
  "electrolyte_query battinfo =
     [[],
      ''PREFIX emmo: <https://w3id.org/emmo/domain/battery/>'',
      ''PREFIX rdfs: <http://www.w3.org/2000/01/rdf-schema#>'',
      ''SELECT ?electrolyte ?electrolyteLabel ?component ?amount ?componentLabel WHERE {'',
      ''    ?electrolyte a <'' @ Electrolyte battinfo @ ''> ;'',
      ''                rdfs:label ?electrolyteLabel ;'',
      ''                <'' @ hasSolvent battinfo @ ''> ?solvent .'',
      ''    ?solvent <'' @ hasConstituent battinfo @ ''> ?component .'',
      ''    ?component <'' @ hasProperty battinfo @ ''> ?property .'',
      ''    ?component rdfs:label ?componentLabel .'',
      ''    ?property <'' @ hasNumericalPart battinfo @ ''> ?value .'',
      ''    ?value <'' @ hasNumberValue battinfo @ ''> ?amount .'',
      ''}'',
      []]"

definition schema_query_cell :: "string \<Rightarrow> schema_row notebook \<Rightarrow> schema_row notebook" where
  "schema_query_cell hasMeasurementUnit s = s\<lparr>query := schema_query hasMeasurementUnit\<rparr>"

definition electrolyte_query_cell :: "electrolyte_iris \<Rightarrow> electrolyte_notebook \<Rightarrow> electrolyte_notebook" where
  "electrolyte_query_cell battinfo s = s\<lparr>query := electrolyte_query battinfo\<rparr>"

text \<open>
  Modelled from the spec: the query operation of the graph engine (\<open>Graph.query\<close> of
  the graph library, whose code is not part of the repository). The spec gives it a
  previously built graph and a query string as input and a finite sequence of result
  rows as output, and says of the graph that it is constructed once per run and
  read-only thereafter, with no update or deletion operations used. So a query
  returns the rows its text selects from the triples, and the graph with the same
  triples.
\<close>

definition graph_query :: "'r engine \<Rightarrow> triple set \<Rightarrow> string list \<Rightarrow> 'r list \<times> triple set" where
  "graph_query select g q = (select q g, g)"

text \<open>
  \<^verbatim>\<open>results = g.query(query)\<close>: the call hands the graph to the engine, and the
  notebook goes on with the graph the engine leaves.
\<close>

definition execute_cell :: "'r engine \<Rightarrow> ('r, 'z) notebook_scheme \<Rightarrow> ('r, 'z) notebook_scheme" where
  "execute_cell select s =
     (case graph_query select (graph s) (query s) of
        (rows, g) \<Rightarrow> s\<lparr>graph := g, results := rows\<rparr>)"

text \<open>
  The display cells: what the cell prints or the error that ends it, and the notebook it
  leaves behind, with the variables as the loop has assigned them up to there.
\<close>

definition schema_display_cell ::
  "ontology \<Rightarrow> schema_row notebook \<Rightarrow> (error + string list) \<times> schema_row notebook" where
  "schema_display_cell battinfo s =
     (case schema_loop battinfo (results s) [] of
        (None, out) \<Rightarrow> (Inr (''Time-Series Test Data Schema:'' # out), s\<lparr>output_var := out\<rparr>)
      | (Some e, out) \<Rightarrow> (Inl e, s\<lparr>output_var := out\<rparr>))"

definition electrolyte_display_cell ::
  "electrolyte_notebook \<Rightarrow> (error + string list) \<times> electrolyte_notebook" where
  "electrolyte_display_cell s =
     (case electrolyte_loop (results s) (label_var s, []) of
        (label, out) \<Rightarrow> (electrolyte_print (label, out), s\<lparr>output_var := out, label_var := label\<rparr>))"

text \<open>A run of each notebook from the parsed document on, cell after cell.\<close>

definition schema_run ::
  "ontology \<Rightarrow> string \<Rightarrow> schema_row engine \<Rightarrow> triple set \<Rightarrow> (error + string list) \<times> schema_row notebook" where
  "schema_run battinfo hasMeasurementUnit run parsed =
     schema_display_cell battinfo
       (execute_cell run
         (schema_query_cell hasMeasurementUnit
           (parse_cell parsed new_schema_notebook)))"

definition electrolyte_run ::
  "electrolyte_iris \<Rightarrow> electrolyte_row engine \<Rightarrow> triple set \<Rightarrow> (error + string list) \<times> electrolyte_notebook" where
  "electrolyte_run battinfo run parsed =
     electrolyte_display_cell
       (execute_cell run
         (electrolyte_query_cell battinfo
           (parse_cell parsed new_electrolyte_notebook)))"

section \<open>Example inputs\<close>

text \<open>
  A small ontology: four classes and three units with one label each, a class with two
  labels, and an entity without any label. An unbound \<open>iri\<close> finds nothing here.
\<close>

definition example_battinfo :: ontology where
  "example_battinfo iri =
     (case iri of
        None \<Rightarrow> Inr None
      | Some i \<Rightarrow>
          Inr (map_of
            [(''http://example.org/TestTime'', \<lparr>prefLabel = [''TestTime'']\<rparr>),
             (''http://example.org/Voltage'', \<lparr>prefLabel = [''Voltage'']\<rparr>),
             (''http://example.org/ElectricCurrent'',
                \<lparr>prefLabel = [''ElectricCurrent'', ''Current'']\<rparr>),
             (''http://example.org/MilliSecond'', \<lparr>prefLabel = [''MilliSecond'']\<rparr>),
             (''http://example.org/Volt'', \<lparr>prefLabel = [''Volt'']\<rparr>),
             (''http://example.org/Ampere'', \<lparr>prefLabel = [''Ampere'']\<rparr>),
             (''http://example.org/Unlabelled'', \<lparr>prefLabel = []\<rparr>)] i))"

text \<open>The three columns of the time-series metadata, as rows of the schema query.\<close>

definition test_time_row :: schema_row where
  "test_time_row =
     \<lparr>columnName = Some (Literal ''test_time_millisecond'' None (Some (PyStr ''test_time_millisecond''))),
      columnTitle = Some (Literal ''Test Time  /  ms'' None (Some (PyStr ''Test Time  /  ms''))),
      propertyType = Some (URIRef ''http://example.org/test_time''),
      propertyClass = Some (URIRef ''http://example.org/TestTime''),
      unit = Some (URIRef ''http://example.org/MilliSecond''),
      required = Some (Literal ''true'' (Some XSD_boolean) (Some (PyBool True)))\<rparr>"

definition voltage_row :: schema_row where
  "voltage_row =
     \<lparr>columnName = Some (Literal ''voltage_volt'' None (Some (PyStr ''voltage_volt''))),
      columnTitle = Some (Literal ''Voltage  /  V'' None (Some (PyStr ''Voltage  /  V''))),
      propertyType = Some (URIRef ''http://example.org/voltage''),
      propertyClass = Some (URIRef ''http://example.org/Voltage''),
      unit = Some (URIRef ''http://example.org/Volt''),
      required = Some (Literal ''true'' (Some XSD_boolean) (Some (PyBool True)))\<rparr>"

definition current_row :: schema_row where
  "current_row =
     \<lparr>columnName = Some (Literal ''current_ampere'' None (Some (PyStr ''current_ampere''))),
      columnTitle = Some (Literal ''Current  /  A'' None (Some (PyStr ''Current  /  A''))),
      propertyType = Some (URIRef ''http://example.org/current''),
      propertyClass = Some (URIRef ''http://example.org/ElectricCurrent''),
      unit = Some (URIRef ''http://example.org/Ampere''),
      required = Some (Literal ''true'' (Some XSD_boolean) (Some (PyBool True)))\<rparr>"

text \<open>
  Columns whose property class is an IRI that the ontology does not know: one that is
  not required, one that is.
\<close>

definition unknown_class_row :: schema_row where
  "unknown_class_row =
     \<lparr>columnName = Some (Literal ''capacity_ampere_hour'' None (Some (PyStr ''capacity_ampere_hour''))),
      columnTitle = Some (Literal ''Capacity  /  Ah'' None (Some (PyStr ''Capacity  /  Ah''))),
      propertyType = Some (URIRef ''http://example.org/capacity''),
      propertyClass = Some (URIRef ''http://example.org/Capacity''),
      unit = Some (URIRef ''http://example.org/Ampere''),
      required = Some (Literal ''false'' (Some XSD_boolean) (Some (PyBool False)))\<rparr>"

definition required_unknown_row :: schema_row where
  "required_unknown_row =
     \<lparr>columnName = Some (Literal ''energy_watt_hour'' None (Some (PyStr ''energy_watt_hour''))),
      columnTitle = Some (Literal ''Energy  /  Wh'' None (Some (PyStr ''Energy  /  Wh''))),
      propertyType = Some (URIRef ''http://example.org/energy''),
      propertyClass = Some (URIRef ''http://example.org/Energy''),
      unit = Some (URIRef ''http://example.org/Volt''),
      required = Some (Literal ''true'' (Some XSD_boolean) (Some (PyBool True)))\<rparr>"

text \<open>
  Rows of the electrolyte query: two electrolytes, a row without a component label, a
  row with empty labels, and a row whose labels are numbers that are zero.
\<close>

definition solvent_row :: electrolyte_row where
  "solvent_row =
     \<lparr>electrolyte = Some (URIRef ''http://example.org/electrolyte1''),
      electrolyteLabel = Some (Literal ''LP30'' None (Some (PyStr ''LP30''))),
      component = Some (URIRef ''http://example.org/EC''),
      amount = Some (Literal ''0.5'' (Some XSD_double) (Some (PyFloat 0.5))),
      componentLabel = Some (Literal ''ethylene carbonate'' None (Some (PyStr ''ethylene carbonate'')))\<rparr>"

definition other_electrolyte_row :: electrolyte_row where
  "other_electrolyte_row =
     \<lparr>electrolyte = Some (URIRef ''http://example.org/electrolyte2''),
      electrolyteLabel = Some (Literal ''LP57'' None (Some (PyStr ''LP57''))),
      component = Some (URIRef ''http://example.org/EMC''),
      amount = Some (Literal ''0.7'' (Some XSD_double) (Some (PyFloat 0.7))),
      componentLabel = None\<rparr>"

definition empty_label_row :: electrolyte_row where
  "empty_label_row =
     \<lparr>electrolyte = Some (URIRef ''http://example.org/electrolyte3''),
      electrolyteLabel = Some (Literal [] None (Some (PyStr []))),
      component = Some (URIRef ''http://example.org/DMC''),
      amount = Some (Literal ''0.333'' (Some XSD_double) (Some (PyFloat 0.333))),
      componentLabel = Some (Literal [] None (Some (PyStr [])))\<rparr>"

definition zero_label_row :: electrolyte_row where
  "zero_label_row =
     \<lparr>electrolyte = Some (URIRef ''http://example.org/electrolyte4''),
      electrolyteLabel = Some (Literal ''0.0'' (Some XSD_double) (Some (PyFloat 0))),
      component = Some (URIRef ''http://example.org/VC''),
      amount = Some (Literal ''0.02'' (Some XSD_double) (Some (PyFloat 0.02))),
      componentLabel = Some (Literal ''0'' (Some XSD_integer) (Some (PyInt 0)))\<rparr>"

text \<open>Inputs of a run: a graph, the IRIs spliced into the electrolyte query, an engine.\<close>

definition example_graph :: "triple set" where
  "example_graph =
     {(URIRef ''http://example.org/column1'', URIRef ''http://www.w3.org/ns/csvw#name'',
       Literal ''test_time_millisecond'' None (Some (PyStr ''test_time_millisecond'')))}"

definition example_iris :: electrolyte_iris where
  "example_iris =
     \<lparr>Electrolyte = ''http://example.org/Electrolyte'',
      hasSolvent = ''http://example.org/hasSolvent'',
      hasConstituent = ''http://example.org/hasConstituent'',
      hasProperty = ''http://example.org/hasProperty'',
      hasNumericalPart = ''http://example.org/hasNumericalPart'',
      hasNumberValue = ''http://example.org/hasNumberValue''\<rparr>"

definition constant_engine :: "'r list \<Rightarrow> 'r engine" where
  "constant_engine rows q g = rows"

section \<open>Properties of the formatters\<close>

subsection \<open>Auxiliary facts\<close>

lemmas example_defs =
  example_battinfo_def test_time_row_def voltage_row_def current_row_def unknown_class_row_def
  required_unknown_row_def solvent_row_def other_electrolyte_row_def empty_label_row_def
  zero_label_row_def XSD_boolean_def XSD_integer_def XSD_double_def

lemmas format_defs =
  schema_display_def schema_line_def first_prefLabel_def required_status_def py_str_def
  lower_def lower_char_def electrolyte_display_def electrolyte_print_def
  component_line_def component_label_def electrolyte_label_def if_else_def

text \<open>The status in the terms of the source line: bound, true, and reading \<open>true\<close>.\<close>

lemma required_status_eq:
  "required_status row =
     (if \<exists>t. required row = Some t \<and> node_bool t \<and> lower (text_of t) = ''true''
      then ''Required'' else ''Optional'')"
  by (auto simp: required_status_def split: option.splits)

text \<open>
  A node that reads \<open>true\<close> is not empty, so it fails the truth test only as a literal
  that holds a false Python value.
\<close>

lemma text_true_bool:
  "lower (text_of t) = ''true'' \<Longrightarrow>
   node_bool t = (\<forall>s dt v. t = Literal s dt (Some v) \<longrightarrow> py_bool v)"
proof (cases t)
  case (Literal s dt v)
  assume "lower (text_of t) = ''true''"
  with Literal have "s \<noteq> []"
    by (auto simp: lower_def)
  with Literal show ?thesis
    by (cases v) auto
qed (auto simp: lower_def)

lemma required_status_true:
  "required row = Some t \<Longrightarrow> node_bool t \<Longrightarrow> lower (text_of t) = ''true'' \<Longrightarrow>
   required_status row = ''Required''"
  by (simp add: required_status_def)

lemma first_prefLabel_absent:
  "battinfo (map_option text_of x) = Inr None \<Longrightarrow> first_prefLabel battinfo x = Inl AttributeError"
  by (simp add: first_prefLabel_def)


lemma schema_line_fault:
  "isl (first_prefLabel battinfo (propertyClass row)) \<or> isl (first_prefLabel battinfo (unit row))
   \<Longrightarrow> isl (schema_line battinfo row)"
  by (auto simp: schema_line_def split: sum.splits)

lemma schema_line_eq:
  "first_prefLabel battinfo (propertyClass row) = Inr cls \<Longrightarrow>
   first_prefLabel battinfo (unit row) = Inr un \<Longrightarrow>
   schema_line battinfo row =
     Inr (''Column: '' @ py_str (columnName row) @ '' ('' @ py_str (columnTitle row) @
          ''), Property Class: '' @ cls @ '', Unit: '' @ un @
          '', Required: '' @ required_status row)"
  by (simp add: schema_line_def)

lemma schema_line_ok:
  assumes "py_str (columnName r) = name"
    and "required r = Some t" and "node_bool t" and "lower (text_of t) = ''true''"
    and "first_prefLabel battinfo (propertyClass r) = Inr cls"
    and "first_prefLabel battinfo (unit r) = Inr un"
  shows "schema_line battinfo r =
     Inr (''Column: '' @ name @ '' ('' @ py_str (columnTitle r) @ ''), Property Class: '' @ cls @
          '', Unit: '' @ un @ '', Required: Required'')"
  using assms by (simp add: schema_line_def required_status_true)

text \<open>A loop whose rows all format appends their lines in order.\<close>

lemma schema_loop_ok:
  "\<forall>row \<in> set rows. schema_line battinfo row = Inr (f row) \<Longrightarrow>
   schema_loop battinfo rows out = (None, out @ map f rows)"
  by (induction rows arbitrary: out) simp_all

lemma schema_display_ok:
  "\<forall>row \<in> set rows. schema_line battinfo row = Inr (f row) \<Longrightarrow>
   schema_display battinfo rows = Inr (''Time-Series Test Data Schema:'' # map f rows)"
  using schema_loop_ok [of rows battinfo f "[]"] by (simp add: schema_display_def)

text \<open>A row that raises ends the loop with its error, whatever \<open>output\<close> holds by then.\<close>

lemma schema_loop_fault:
  "row \<in> set rows \<Longrightarrow> isl (schema_line battinfo row) \<Longrightarrow>
   fst (schema_loop battinfo rows out) \<noteq> None"
  by (induction rows arbitrary: out) (auto split: sum.splits)

lemma schema_display_fault:
  "row \<in> set rows \<Longrightarrow> isl (schema_line battinfo row) \<Longrightarrow>
   \<exists>e. schema_display battinfo rows = Inl e"
  using schema_loop_fault [of row rows battinfo "[]"]
  by (auto simp: schema_display_def split: prod.splits option.splits)

lemma schema_display_lookup_fault:
  "\<exists>row \<in> set rows. isl (first_prefLabel battinfo (propertyClass row)) \<or>
                       isl (first_prefLabel battinfo (unit row)) \<Longrightarrow>
   \<exists>e. schema_display battinfo rows = Inl e"
  by (blast intro: schema_line_fault schema_display_fault)

lemma schema_rows_ok:
  "schema_line battinfo r1 = Inr l1 \<Longrightarrow> schema_line battinfo r2 = Inr l2 \<Longrightarrow>
   schema_line battinfo r3 = Inr l3 \<Longrightarrow>
   schema_display battinfo [r1, r2, r3] = Inr [''Time-Series Test Data Schema:'', l1, l2, l3]"
  by (simp add: schema_display_def)

text \<open>The lookups of a row are all that the loop reads of the ontology.\<close>

lemma first_prefLabel_cong:
  "battinfo (map_option text_of x) = battinfo' (map_option text_of x) \<Longrightarrow>
   first_prefLabel battinfo x = first_prefLabel battinfo' x"
  by (simp add: first_prefLabel_def)

lemma schema_line_cong:
  "battinfo (map_option text_of (propertyClass row)) = battinfo' (map_option text_of (propertyClass row)) \<Longrightarrow>
   battinfo (map_option text_of (unit row)) = battinfo' (map_option text_of (unit row)) \<Longrightarrow>
   schema_line battinfo row = schema_line battinfo' row"
  using first_prefLabel_cong [of battinfo "propertyClass row" battinfo']
    first_prefLabel_cong [of battinfo "unit row" battinfo']
  by (simp add: schema_line_def split: sum.splits)

lemma schema_loop_cong:
  "\<forall>row \<in> set rows.
     battinfo (map_option text_of (propertyClass row)) = battinfo' (map_option text_of (propertyClass row)) \<and>
     battinfo (map_option text_of (unit row)) = battinfo' (map_option text_of (unit row)) \<Longrightarrow>
   schema_loop battinfo rows out = schema_loop battinfo' rows out"
proof (induction rows arbitrary: out)
  case Nil
  show ?case by simp
next
  case (Cons row rows)
  from Cons.prems have l: "schema_line battinfo row = schema_line battinfo' row"
    by (intro schema_line_cong) simp_all
  from Cons.prems have "\<forall>row \<in> set rows.
     battinfo (map_option text_of (propertyClass row)) = battinfo' (map_option text_of (propertyClass row)) \<and>
     battinfo (map_option text_of (unit row)) = battinfo' (map_option text_of (unit row))"
    by simp
  then have ih: "schema_loop battinfo rows out' = schema_loop battinfo' rows out'" for out'
    by (rule Cons.IH)
  show ?case
    by (simp only: schema_loop.simps l ih)
qed

text \<open>The electrolyte loop in closed form: the label of the last row, one line per row.\<close>

lemma electrolyte_loop_eq:
  "electrolyte_loop rows (label, out) =
     ((if rows = [] then label else Some (electrolyte_label (last rows))),
      out @ map component_line rows)"
  by (induction rows arbitrary: label out) auto

lemma electrolyte_display_eq:
  "rows \<noteq> [] \<Longrightarrow>
   electrolyte_display rows =
     Inr ((''Electrolyte: '' @ py_str (electrolyte_label (last rows))) # map component_line rows)"
  by (simp add: electrolyte_display_def electrolyte_print_def electrolyte_loop_eq)

lemma electrolyte_display_line:
  "i < length rows \<Longrightarrow>
   \<exists>lines. electrolyte_display rows = Inr lines \<and> length lines = Suc (length rows) \<and>
           lines ! Suc i = component_line (rows ! i)"
  by (cases "rows = []") (simp_all add: electrolyte_display_eq)

lemma electrolyte_display_head:
  "rows \<noteq> [] \<Longrightarrow>
   \<exists>lines. electrolyte_display rows = Inr lines \<and>
           lines ! 0 = ''Electrolyte: '' @ py_str (electrolyte_label (last rows))"
  by (simp add: electrolyte_display_eq)

lemma schema_display_cell_fst:
  "fst (schema_display_cell battinfo s) = schema_display battinfo (results s)"
  by (simp add: schema_display_cell_def schema_display_def split: prod.splits option.splits)

lemma electrolyte_display_cell_fst:
  "fst (electrolyte_display_cell s) =
     electrolyte_print (electrolyte_loop (results s) (label_var s, []))"
  by (simp add: electrolyte_display_cell_def split: prod.splits)

subsection \<open>The required flag\<close>

text \<open>
  Claim C1, as stated, fails: a row whose required value is bound and reads \<open>true\<close>,
  but whose property class the ontology does not know, has no status printed: the
  display step ends with an error and prints nothing.
\<close>

theorem required_status_counterexample:
  "required required_unknown_row = Some (Literal ''true'' (Some XSD_boolean) (Some (PyBool True))) \<and>
   lower (text_of (Literal ''true'' (Some XSD_boolean) (Some (PyBool True)))) = ''true'' \<and>
   schema_display example_battinfo [required_unknown_row] = Inl AttributeError"
  by (simp add: example_defs format_defs)

text \<open>
  Claim C1, amended. When the label lookups of every row succeed, the display step
  prints, after the heading, one line per row in order, and the line of a row ends in
  \<open>Required: Required\<close> exactly when the row's required value is bound, is true as a
  condition, and its text, lowered, is \<open>true\<close>; for every other value (unbound,
  \<open>false\<close>, any other text) it ends in \<open>Required: Optional\<close>. When a lookup of some row
  fails, the display step ends with an error and no status is printed. A bound value
  that reads \<open>true\<close> is true as a condition unless it is a literal that holds a false
  Python value.
\<close>

theorem required_status_printed:
  "((\<forall>row \<in> set rows. first_prefLabel battinfo (propertyClass row) = Inr (cls row) \<and>
                        first_prefLabel battinfo (unit row) = Inr (un row)) \<longrightarrow>
      schema_display battinfo rows =
        Inr (''Time-Series Test Data Schema:'' #
             map (\<lambda>row. ''Column: '' @ py_str (columnName row) @ '' ('' @
                         py_str (columnTitle row) @ ''), Property Class: '' @ cls row @
                         '', Unit: '' @ un row @ '', Required: '' @
                         (if \<exists>t. required row = Some t \<and> node_bool t \<and>
                                  lower (text_of t) = ''true''
                          then ''Required'' else ''Optional'')) rows)) \<and>
   ((\<exists>row \<in> set rows. isl (first_prefLabel battinfo (propertyClass row)) \<or>
                        isl (first_prefLabel battinfo (unit row))) \<longrightarrow>
      (\<exists>e. schema_display battinfo rows = Inl e)) \<and>
   (lower (text_of t) = ''true'' \<longrightarrow>
      node_bool t = (\<forall>s dt v. t = Literal s dt (Some v) \<longrightarrow> py_bool v))"
proof (intro conjI impI)
  assume a: "\<forall>row \<in> set rows. first_prefLabel battinfo (propertyClass row) = Inr (cls row) \<and>
                        first_prefLabel battinfo (unit row) = Inr (un row)"
  have "\<forall>row \<in> set rows. schema_line battinfo row =
      Inr (''Column: '' @ py_str (columnName row) @ '' ('' @
           py_str (columnTitle row) @ ''), Property Class: '' @ cls row @
           '', Unit: '' @ un row @ '', Required: '' @
           (if \<exists>t. required row = Some t \<and> node_bool t \<and> lower (text_of t) = ''true''
            then ''Required'' else ''Optional''))"
  proof
    fix row
    assume "row \<in> set rows"
    with a have l: "first_prefLabel battinfo (propertyClass row) = Inr (cls row)"
      "first_prefLabel battinfo (unit row) = Inr (un row)"
      by simp_all
    show "schema_line battinfo row =
      Inr (''Column: '' @ py_str (columnName row) @ '' ('' @
           py_str (columnTitle row) @ ''), Property Class: '' @ cls row @
           '', Unit: '' @ un row @ '', Required: '' @
           (if \<exists>t. required row = Some t \<and> node_bool t \<and> lower (text_of t) = ''true''
            then ''Required'' else ''Optional''))"
      unfolding schema_line_eq [OF l] required_status_eq by (rule refl)
  qed
  then show "schema_display battinfo rows =
        Inr (''Time-Series Test Data Schema:'' #
             map (\<lambda>row. ''Column: '' @ py_str (columnName row) @ '' ('' @
                         py_str (columnTitle row) @ ''), Property Class: '' @ cls row @
                         '', Unit: '' @ un row @ '', Required: '' @
                         (if \<exists>t. required row = Some t \<and> node_bool t \<and>
                                  lower (text_of t) = ''true''
                          then ''Required'' else ''Optional'')) rows)"
    by (rule schema_display_ok)
next
  assume "\<exists>row \<in> set rows. isl (first_prefLabel battinfo (propertyClass row)) \<or>
                        isl (first_prefLabel battinfo (unit row))"
  then show "\<exists>e. schema_display battinfo rows = Inl e"
    by (rule schema_display_lookup_fault)
next
  assume "lower (text_of t) = ''true''"
  then show "node_bool t = (\<forall>s dt v. t = Literal s dt (Some v) \<longrightarrow> py_bool v)"
    by (rule text_true_bool)
qed

theorem required_status_printed_witness:
  "map (first_prefLabel example_battinfo \<circ> propertyClass)
       [test_time_row, voltage_row\<lparr>required := None\<rparr>] = [Inr ''TestTime'', Inr ''Voltage''] \<and>
   map (first_prefLabel example_battinfo \<circ> unit)
       [test_time_row, voltage_row\<lparr>required := None\<rparr>] = [Inr ''MilliSecond'', Inr ''Volt''] \<and>
   schema_display example_battinfo [test_time_row, voltage_row\<lparr>required := None\<rparr>] =
     Inr [''Time-Series Test Data Schema:'',
          ''Column: test_time_millisecond (Test Time  /  ms), Property Class: TestTime, Unit: MilliSecond, Required: Required'',
          ''Column: voltage_volt (Voltage  /  V), Property Class: Voltage, Unit: Volt, Required: Optional''] \<and>
   isl (first_prefLabel example_battinfo (propertyClass required_unknown_row)) \<and>
   (\<exists>e. schema_display example_battinfo [required_unknown_row] = Inl e) \<and>
   lower (text_of (URIRef ''TRUE'')) = ''true'' \<and> node_bool (URIRef ''TRUE'')"
proof -
  have c: "map (first_prefLabel example_battinfo \<circ> propertyClass)
       [test_time_row, voltage_row\<lparr>required := None\<rparr>] = [Inr ''TestTime'', Inr ''Voltage'']"
    and u: "map (first_prefLabel example_battinfo \<circ> unit)
       [test_time_row, voltage_row\<lparr>required := None\<rparr>] = [Inr ''MilliSecond'', Inr ''Volt'']"
    by (simp_all add: example_defs first_prefLabel_def)
  have f: "isl (first_prefLabel example_battinfo (propertyClass required_unknown_row))"
    by (simp add: example_defs first_prefLabel_def)
  have l: "lower (text_of (URIRef ''TRUE'')) = ''true''"
    by (simp add: lower_def lower_char_def)
  have h: "\<forall>row \<in> set [test_time_row, voltage_row\<lparr>required := None\<rparr>].
      first_prefLabel example_battinfo (propertyClass row) =
        Inr ((\<lambda>row. if row = test_time_row then ''TestTime'' else ''Voltage'') row) \<and>
      first_prefLabel example_battinfo (unit row) =
        Inr ((\<lambda>row. if row = test_time_row then ''MilliSecond'' else ''Volt'') row)"
    by (simp add: example_defs first_prefLabel_def)
  have v: "py_str (columnName test_time_row) = ''test_time_millisecond''"
    "py_str (columnTitle test_time_row) = ''Test Time  /  ms''"
    "py_str (columnName (voltage_row\<lparr>required := None\<rparr>)) = ''voltage_volt''"
    "py_str (columnTitle (voltage_row\<lparr>required := None\<rparr>)) = ''Voltage  /  V''"
    "voltage_row\<lparr>required := None\<rparr> \<noteq> test_time_row"
    "required test_time_row = Some (Literal ''true'' (Some XSD_boolean) (Some (PyBool True)))"
    "required (voltage_row\<lparr>required := None\<rparr>) = None"
    "lower ''true'' = ''true''"
    by (simp_all add: example_defs py_str_def lower_def lower_char_def)
  note t1 = required_status_printed [where rows = "[test_time_row, voltage_row\<lparr>required := None\<rparr>]"
      and battinfo = example_battinfo
      and cls = "\<lambda>row. if row = test_time_row then ''TestTime'' else ''Voltage''"
      and un = "\<lambda>row. if row = test_time_row then ''MilliSecond'' else ''Volt''"
      and t = "URIRef ''TRUE''"]
  note t2 = required_status_printed [where rows = "[required_unknown_row]"
      and battinfo = example_battinfo and t = "URIRef ''TRUE''"]
  have 1: "schema_display example_battinfo [test_time_row, voltage_row\<lparr>required := None\<rparr>] =
     Inr [''Time-Series Test Data Schema:'',
          ''Column: test_time_millisecond (Test Time  /  ms), Property Class: TestTime, Unit: MilliSecond, Required: Required'',
          ''Column: voltage_volt (Voltage  /  V), Property Class: Voltage, Unit: Volt, Required: Optional'']"
    using t1 h v by simp
  have 2: "\<exists>e. schema_display example_battinfo [required_unknown_row] = Inl e"
    using t2 f by simp
  have 3: "node_bool (URIRef ''TRUE'')"
    using t1 l by simp
  from c u 1 f 2 l 3 show ?thesis by blast
qed

subsection \<open>Identifiers that the ontology does not know\<close>

text \<open>
  Claim C2, as stated, fails: a row whose property class is absent from the ontology
  makes the schema formatter raise instead of showing the raw identifier.
\<close>

theorem absent_term_counterexample:
  "schema_display example_battinfo [unknown_class_row] = Inl AttributeError"
  by (simp add: example_defs format_defs)

text \<open>
  Claim C2, amended. When the search for the property class or the unit of some row
  finds no entity (\<open>search_one\<close> returns \<open>None\<close>), the display step of the schema
  notebook ends with an error and prints nothing, with AttributeError when that is the
  property class of the first row; there is no fallback. The fallback to the raw
  identifier is the electrolyte notebook's alone: there the line of every row whose
  component label is unbound shows the component identifier of the row, and the
  \<open>Electrolyte:\<close> line shows the electrolyte identifier of the last row when the
  electrolyte label of the last row is unbound.
\<close>

theorem absent_term_faults:
  "(row \<in> set rows \<and>
    (battinfo (map_option text_of (propertyClass row)) = Inr None \<or>
     battinfo (map_option text_of (unit row)) = Inr None) \<longrightarrow>
      (\<exists>e. schema_display battinfo rows = Inl e)) \<and>
   (battinfo (map_option text_of (propertyClass row)) = Inr None \<longrightarrow>
      schema_display battinfo (row # rows) = Inl AttributeError) \<and>
   (i < length erows \<and> componentLabel (erows ! i) = None \<longrightarrow>
      (\<exists>lines. electrolyte_display erows = Inr lines \<and> length lines = Suc (length erows) \<and>
         lines ! Suc i =
           ''Component: '' @ py_str (component (erows ! i)) @
           '', Volume Fraction: '' @ py_str (amount (erows ! i)))) \<and>
   (erows \<noteq> [] \<and> electrolyteLabel (last erows) = None \<longrightarrow>
      (\<exists>lines. electrolyte_display erows = Inr lines \<and>
         lines ! 0 = ''Electrolyte: '' @ py_str (electrolyte (last erows))))"
proof (intro conjI impI)
  assume a: "row \<in> set rows \<and>
    (battinfo (map_option text_of (propertyClass row)) = Inr None \<or>
     battinfo (map_option text_of (unit row)) = Inr None)"
  then have "isl (first_prefLabel battinfo (propertyClass row)) \<or>
             isl (first_prefLabel battinfo (unit row))"
    by (auto simp: first_prefLabel_absent)
  with a show "\<exists>e. schema_display battinfo rows = Inl e"
    by (blast intro: schema_display_lookup_fault)
next
  assume "battinfo (map_option text_of (propertyClass row)) = Inr None"
  then have "schema_line battinfo row = Inl AttributeError"
    by (simp add: schema_line_def first_prefLabel_absent)
  then show "schema_display battinfo (row # rows) = Inl AttributeError"
    by (simp add: schema_display_def)
next
  assume a: "i < length erows \<and> componentLabel (erows ! i) = None"
  then have "component_line (erows ! i) =
      ''Component: '' @ py_str (component (erows ! i)) @
      '', Volume Fraction: '' @ py_str (amount (erows ! i))"
    by (simp add: component_line_def component_label_def if_else_def)
  with a electrolyte_display_line [of i erows]
  show "\<exists>lines. electrolyte_display erows = Inr lines \<and> length lines = Suc (length erows) \<and>
         lines ! Suc i =
           ''Component: '' @ py_str (component (erows ! i)) @
           '', Volume Fraction: '' @ py_str (amount (erows ! i))"
    by auto
next
  assume a: "erows \<noteq> [] \<and> electrolyteLabel (last erows) = None"
  then have "electrolyte_label (last erows) = electrolyte (last erows)"
    by (simp add: electrolyte_label_def if_else_def)
  with a electrolyte_display_head [of erows]
  show "\<exists>lines. electrolyte_display erows = Inr lines \<and>
         lines ! 0 = ''Electrolyte: '' @ py_str (electrolyte (last erows))"
    by auto
qed

theorem absent_term_faults_witness:
  "unknown_class_row \<in> set [test_time_row, unknown_class_row] \<and>
   example_battinfo (map_option text_of (propertyClass unknown_class_row)) = Inr None \<and>
   (\<exists>e. schema_display example_battinfo [test_time_row, unknown_class_row] = Inl e) \<and>
   schema_display example_battinfo [unknown_class_row, test_time_row] = Inl AttributeError \<and>
   (1::nat) < length [solvent_row, other_electrolyte_row\<lparr>electrolyteLabel := None\<rparr>] \<and>
   componentLabel ([solvent_row, other_electrolyte_row\<lparr>electrolyteLabel := None\<rparr>] ! 1) = None \<and>
   electrolyteLabel (last [solvent_row, other_electrolyte_row\<lparr>electrolyteLabel := None\<rparr>]) = None \<and>
   (\<exists>lines. electrolyte_display [solvent_row, other_electrolyte_row\<lparr>electrolyteLabel := None\<rparr>] =
        Inr lines \<and>
      lines ! 0 = ''Electrolyte: http://example.org/electrolyte2'' \<and>
      lines ! 2 = ''Component: http://example.org/EMC, Volume Fraction: 0.7'')"
proof -
  have m: "unknown_class_row \<in> set [test_time_row, unknown_class_row]"
    by simp
  have h: "example_battinfo (map_option text_of (propertyClass unknown_class_row)) = Inr None"
    by (simp add: example_defs)
  have i: "(1::nat) < length [solvent_row, other_electrolyte_row\<lparr>electrolyteLabel := None\<rparr>]"
    by simp
  have c: "componentLabel ([solvent_row, other_electrolyte_row\<lparr>electrolyteLabel := None\<rparr>] ! 1) = None"
    and e: "electrolyteLabel (last [solvent_row, other_electrolyte_row\<lparr>electrolyteLabel := None\<rparr>]) = None"
    by (simp_all add: example_defs)
  have v: "py_str (component (other_electrolyte_row\<lparr>electrolyteLabel := None\<rparr>)) = ''http://example.org/EMC''"
    "py_str (amount (other_electrolyte_row\<lparr>electrolyteLabel := None\<rparr>)) = ''0.7''"
    "py_str (electrolyte (other_electrolyte_row\<lparr>electrolyteLabel := None\<rparr>)) = ''http://example.org/electrolyte2''"
    by (simp_all add: example_defs py_str_def)
  note t1 = absent_term_faults [where row = unknown_class_row
      and rows = "[test_time_row, unknown_class_row]" and battinfo = example_battinfo
      and i = 1 and erows = "[solvent_row, other_electrolyte_row\<lparr>electrolyteLabel := None\<rparr>]"]
  note t2 = absent_term_faults [where row = unknown_class_row
      and rows = "[test_time_row]" and battinfo = example_battinfo
      and i = 1 and erows = "[solvent_row, other_electrolyte_row\<lparr>electrolyteLabel := None\<rparr>]"]
  have 1: "\<exists>e. schema_display example_battinfo [test_time_row, unknown_class_row] = Inl e"
    using t1 m h by blast
  have 2: "schema_display example_battinfo [unknown_class_row, test_time_row] = Inl AttributeError"
    using t2 h by blast
  from t1 i c obtain lines where
    l: "electrolyte_display [solvent_row, other_electrolyte_row\<lparr>electrolyteLabel := None\<rparr>] = Inr lines"
    and l2: "lines ! Suc 1 = ''Component: '' @
        py_str (component ([solvent_row, other_electrolyte_row\<lparr>electrolyteLabel := None\<rparr>] ! 1)) @
        '', Volume Fraction: '' @
        py_str (amount ([solvent_row, other_electrolyte_row\<lparr>electrolyteLabel := None\<rparr>] ! 1))"
    by blast
  from t1 e obtain lines' where
    l': "electrolyte_display [solvent_row, other_electrolyte_row\<lparr>electrolyteLabel := None\<rparr>] = Inr lines'"
    and l0: "lines' ! 0 = ''Electrolyte: '' @
        py_str (electrolyte (last [solvent_row, other_electrolyte_row\<lparr>electrolyteLabel := None\<rparr>]))"
    by blast
  from l l' have "lines' = lines" by simp
  with l l2 l0 v have 3: "\<exists>lines. electrolyte_display [solvent_row, other_electrolyte_row\<lparr>electrolyteLabel := None\<rparr>] =
        Inr lines \<and>
      lines ! 0 = ''Electrolyte: http://example.org/electrolyte2'' \<and>
      lines ! 2 = ''Component: http://example.org/EMC, Volume Fraction: 0.7''"
    by (simp add: numeral_2_eq_2)
  from m h 1 2 i c e 3 show ?thesis by blast
qed

subsection \<open>The schema scenario\<close>

text \<open>
  Claim C3, as stated, fails: on the three columns the display step prints four lines,
  the heading first, and not the three column lines alone.
\<close>

theorem schema_scenario_counterexample:
  "schema_display example_battinfo [test_time_row, voltage_row, current_row] =
     Inr [''Time-Series Test Data Schema:'',
          ''Column: test_time_millisecond (Test Time  /  ms), Property Class: TestTime, Unit: MilliSecond, Required: Required'',
          ''Column: voltage_volt (Voltage  /  V), Property Class: Voltage, Unit: Volt, Required: Required'',
          ''Column: current_ampere (Current  /  A), Property Class: ElectricCurrent, Unit: Ampere, Required: Required''] \<and>
   schema_display example_battinfo [test_time_row, voltage_row, current_row] \<noteq>
     Inr [''Column: test_time_millisecond (Test Time  /  ms), Property Class: TestTime, Unit: MilliSecond, Required: Required'',
          ''Column: voltage_volt (Voltage  /  V), Property Class: Voltage, Unit: Volt, Required: Required'',
          ''Column: current_ampere (Current  /  A), Property Class: ElectricCurrent, Unit: Ampere, Required: Required'']"
  by (simp add: example_defs format_defs)

text \<open>
  Claim C3, amended. For three rows named \<open>test_time_millisecond\<close>, \<open>voltage_volt\<close> and
  \<open>current_ampere\<close>, each marked required (a required value that is true and whose
  lowered text is \<open>true\<close>), whose property classes resolve to the labels TestTime,
  Voltage, ElectricCurrent and whose units resolve to MilliSecond, Volt, Ampere, the
  display step prints the heading \<open>Time-Series Test Data Schema:\<close> followed by exactly
  three lines, in the order of the rows, each of the form
  \<open>Column: <name> (<title>), Property Class: <class>, Unit: <unit>, Required: Required\<close>.
\<close>

theorem schema_scenario:
  assumes "py_str (columnName r1) = ''test_time_millisecond''"
    and "py_str (columnName r2) = ''voltage_volt''"
    and "py_str (columnName r3) = ''current_ampere''"
    and "\<forall>r \<in> set [r1, r2, r3].
           \<exists>t. required r = Some t \<and> node_bool t \<and> lower (text_of t) = ''true''"
    and "map (first_prefLabel battinfo \<circ> propertyClass) [r1, r2, r3] =
           [Inr ''TestTime'', Inr ''Voltage'', Inr ''ElectricCurrent'']"
    and "map (first_prefLabel battinfo \<circ> unit) [r1, r2, r3] =
           [Inr ''MilliSecond'', Inr ''Volt'', Inr ''Ampere'']"
  shows "schema_display battinfo [r1, r2, r3] =
     Inr [''Time-Series Test Data Schema:'',
          ''Column: test_time_millisecond ('' @ py_str (columnTitle r1) @
            ''), Property Class: TestTime, Unit: MilliSecond, Required: Required'',
          ''Column: voltage_volt ('' @ py_str (columnTitle r2) @
            ''), Property Class: Voltage, Unit: Volt, Required: Required'',
          ''Column: current_ampere ('' @ py_str (columnTitle r3) @
            ''), Property Class: ElectricCurrent, Unit: Ampere, Required: Required'']"
proof -
  from assms(4) obtain t1 t2 t3 where
    "required r1 = Some t1" "node_bool t1" "lower (text_of t1) = ''true''"
    "required r2 = Some t2" "node_bool t2" "lower (text_of t2) = ''true''"
    "required r3 = Some t3" "node_bool t3" "lower (text_of t3) = ''true''"
    by auto
  moreover from assms(5) have
    "first_prefLabel battinfo (propertyClass r1) = Inr ''TestTime''"
    "first_prefLabel battinfo (propertyClass r2) = Inr ''Voltage''"
    "first_prefLabel battinfo (propertyClass r3) = Inr ''ElectricCurrent''"
    by simp_all
  moreover from assms(6) have
    "first_prefLabel battinfo (unit r1) = Inr ''MilliSecond''"
    "first_prefLabel battinfo (unit r2) = Inr ''Volt''"
    "first_prefLabel battinfo (unit r3) = Inr ''Ampere''"
    by simp_all
  ultimately have
    "schema_line battinfo r1 = Inr (''Column: test_time_millisecond ('' @ py_str (columnTitle r1) @
            ''), Property Class: TestTime, Unit: MilliSecond, Required: Required'')"
    "schema_line battinfo r2 = Inr (''Column: voltage_volt ('' @ py_str (columnTitle r2) @
            ''), Property Class: Voltage, Unit: Volt, Required: Required'')"
    "schema_line battinfo r3 = Inr (''Column: current_ampere ('' @ py_str (columnTitle r3) @
            ''), Property Class: ElectricCurrent, Unit: Ampere, Required: Required'')"
    using assms(1-3) by (simp_all add: schema_line_ok)
  then show ?thesis
    by (rule schema_rows_ok)
qed

theorem schema_scenario_witness:
  "py_str (columnName test_time_row) = ''test_time_millisecond'' \<and>
   py_str (columnName voltage_row) = ''voltage_volt'' \<and>
   py_str (columnName current_row) = ''current_ampere'' \<and>
   node_bool (Literal ''true'' (Some XSD_boolean) (Some (PyBool True))) \<and>
   lower (text_of (Literal ''true'' (Some XSD_boolean) (Some (PyBool True)))) = ''true'' \<and>
   map required [test_time_row, voltage_row, current_row] =
     [Some (Literal ''true'' (Some XSD_boolean) (Some (PyBool True))),
      Some (Literal ''true'' (Some XSD_boolean) (Some (PyBool True))),
      Some (Literal ''true'' (Some XSD_boolean) (Some (PyBool True)))] \<and>
   map (first_prefLabel example_battinfo \<circ> propertyClass) [test_time_row, voltage_row, current_row] =
     [Inr ''TestTime'', Inr ''Voltage'', Inr ''ElectricCurrent''] \<and>
   map (first_prefLabel example_battinfo \<circ> unit) [test_time_row, voltage_row, current_row] =
     [Inr ''MilliSecond'', Inr ''Volt'', Inr ''Ampere''] \<and>
   schema_display example_battinfo [test_time_row, voltage_row, current_row] =
     Inr [''Time-Series Test Data Schema:'',
          ''Column: test_time_millisecond (Test Time  /  ms), Property Class: TestTime, Unit: MilliSecond, Required: Required'',
          ''Column: voltage_volt (Voltage  /  V), Property Class: Voltage, Unit: Volt, Required: Required'',
          ''Column: current_ampere (Current  /  A), Property Class: ElectricCurrent, Unit: Ampere, Required: Required'']"
proof -
  have n: "py_str (columnName test_time_row) = ''test_time_millisecond''"
    "py_str (columnName voltage_row) = ''voltage_volt''"
    "py_str (columnName current_row) = ''current_ampere''"
    by (simp_all add: example_defs py_str_def)
  have r: "\<forall>r \<in> set [test_time_row, voltage_row, current_row].
      \<exists>t. required r = Some t \<and> node_bool t \<and> lower (text_of t) = ''true''"
    by (simp add: example_defs lower_def lower_char_def)
  have c: "map (first_prefLabel example_battinfo \<circ> propertyClass) [test_time_row, voltage_row, current_row] =
     [Inr ''TestTime'', Inr ''Voltage'', Inr ''ElectricCurrent'']"
    by (simp add: example_defs first_prefLabel_def)
  have u: "map (first_prefLabel example_battinfo \<circ> unit) [test_time_row, voltage_row, current_row] =
     [Inr ''MilliSecond'', Inr ''Volt'', Inr ''Ampere'']"
    by (simp add: example_defs first_prefLabel_def)
  have t: "py_str (columnTitle test_time_row) = ''Test Time  /  ms''"
    "py_str (columnTitle voltage_row) = ''Voltage  /  V''"
    "py_str (columnTitle current_row) = ''Current  /  A''"
    by (simp_all add: example_defs py_str_def)
  have q: "node_bool (Literal ''true'' (Some XSD_boolean) (Some (PyBool True)))"
    "lower (text_of (Literal ''true'' (Some XSD_boolean) (Some (PyBool True)))) = ''true''"
    "map required [test_time_row, voltage_row, current_row] =
       [Some (Literal ''true'' (Some XSD_boolean) (Some (PyBool True))),
        Some (Literal ''true'' (Some XSD_boolean) (Some (PyBool True))),
        Some (Literal ''true'' (Some XSD_boolean) (Some (PyBool True)))]"
    by (simp_all add: example_defs lower_def lower_char_def)
  from schema_scenario [OF n r c u] t n q c u show ?thesis
    by simp
qed

subsection \<open>The electrolyte scenario\<close>

text \<open>
  Claim C4. For three component rows with the labels \<open>ethylene carbonate\<close> (amount
  0.334), \<open>diethylene carbonate\<close> (0.333) and \<open>dimethyl carbonate\<close> (0.333), all with
  the electrolyte label \<open>1M LiPF6 in DMC:EC:EMC 1:1:1 (vol.) + 2 wt% VC\<close>, whatever
  the identifiers of the electrolyte and of the components, the display step prints the
  electrolyte label once, then exactly three lines
  \<open>Component: <label>, Volume Fraction: <amount>\<close> in the order of the rows.
\<close>

theorem electrolyte_scenario:
  "electrolyte_display
     [\<lparr>electrolyte = e,
       electrolyteLabel = Some (Literal ''1M LiPF6 in DMC:EC:EMC 1:1:1 (vol.) + 2 wt% VC'' None
         (Some (PyStr ''1M LiPF6 in DMC:EC:EMC 1:1:1 (vol.) + 2 wt% VC''))),
       component = c1, amount = Some (Literal ''0.334'' (Some XSD_double) (Some (PyFloat 0.334))),
       componentLabel = Some (Literal ''ethylene carbonate'' None (Some (PyStr ''ethylene carbonate'')))\<rparr>,
      \<lparr>electrolyte = e,
       electrolyteLabel = Some (Literal ''1M LiPF6 in DMC:EC:EMC 1:1:1 (vol.) + 2 wt% VC'' None
         (Some (PyStr ''1M LiPF6 in DMC:EC:EMC 1:1:1 (vol.) + 2 wt% VC''))),
       component = c2, amount = Some (Literal ''0.333'' (Some XSD_double) (Some (PyFloat 0.333))),
       componentLabel = Some (Literal ''diethylene carbonate'' None (Some (PyStr ''diethylene carbonate'')))\<rparr>,
      \<lparr>electrolyte = e,
       electrolyteLabel = Some (Literal ''1M LiPF6 in DMC:EC:EMC 1:1:1 (vol.) + 2 wt% VC'' None
         (Some (PyStr ''1M LiPF6 in DMC:EC:EMC 1:1:1 (vol.) + 2 wt% VC''))),
       component = c3, amount = Some (Literal ''0.333'' (Some XSD_double) (Some (PyFloat 0.333))),
       componentLabel = Some (Literal ''dimethyl carbonate'' None (Some (PyStr ''dimethyl carbonate'')))\<rparr>] =
   Inr [''Electrolyte: 1M LiPF6 in DMC:EC:EMC 1:1:1 (vol.) + 2 wt% VC'',
        ''Component: ethylene carbonate, Volume Fraction: 0.334'',
        ''Component: diethylene carbonate, Volume Fraction: 0.333'',
        ''Component: dimethyl carbonate, Volume Fraction: 0.333'']"
  by (simp add: electrolyte_display_def electrolyte_print_def component_line_def
      component_label_def electrolyte_label_def if_else_def py_str_def)

subsection \<open>Identifiers that the ontology knows\<close>




subsection \<open>Failures\<close>

text \<open>
  Claim C6, as stated, fails: with no rows the display step of the schema notebook
  raises nothing and prints its heading.
\<close>

theorem no_rows_counterexample:
  "schema_display example_battinfo [] = Inr [''Time-Series Test Data Schema:'']"
  by (simp add: schema_display_def)

text \<open>
  Claim C6, amended. With no rows, the display step of the electrolyte notebook ends
  with an uncaught NameError, while the display step of the schema notebook prints its
  heading alone. A failing label lookup (the lookup raises, finds no entity, or finds
  one without labels) for the property class or the unit of any row ends the display
  step of the schema notebook with that error: nothing is printed, nothing is retried.
  The display step of the electrolyte notebook raises on no rows only: on any row it
  prints, with the raw identifier in place of a label that is unbound or false.
\<close>

theorem faults_halt:
  "electrolyte_display [] = Inl NameError \<and>
   schema_display battinfo [] = Inr [''Time-Series Test Data Schema:''] \<and>
   ((\<exists>row \<in> set rows. isl (first_prefLabel battinfo (propertyClass row)) \<or>
                        isl (first_prefLabel battinfo (unit row))) \<longrightarrow>
      (\<exists>e. schema_display battinfo rows = Inl e)) \<and>
   (erows \<noteq> [] \<longrightarrow> (\<exists>lines. electrolyte_display erows = Inr lines))"
proof (intro conjI impI)
  show "electrolyte_display [] = Inl NameError"
    by (simp add: electrolyte_display_def electrolyte_print_def)
next
  show "schema_display battinfo [] = Inr [''Time-Series Test Data Schema:'']"
    by (simp add: schema_display_def)
next
  assume "\<exists>row \<in> set rows. isl (first_prefLabel battinfo (propertyClass row)) \<or>
                        isl (first_prefLabel battinfo (unit row))"
  then obtain row where "row \<in> set rows" "isl (schema_line battinfo row)"
    by (blast intro: schema_line_fault)
  then show "\<exists>e. schema_display battinfo rows = Inl e"
    by (rule schema_display_fault)
next
  assume "erows \<noteq> []"
  then show "\<exists>lines. electrolyte_display erows = Inr lines"
    by (simp add: electrolyte_display_def electrolyte_print_def electrolyte_loop_eq)
qed

theorem faults_halt_witness:
  "(\<exists>row \<in> set [test_time_row, current_row\<lparr>unit := Some (URIRef ''http://example.org/Unlabelled'')\<rparr>].
      isl (first_prefLabel example_battinfo (propertyClass row)) \<or>
      isl (first_prefLabel example_battinfo (unit row))) \<and>
   (\<exists>e. schema_display example_battinfo
      [test_time_row, current_row\<lparr>unit := Some (URIRef ''http://example.org/Unlabelled'')\<rparr>] = Inl e) \<and>
   schema_display example_battinfo
      [test_time_row, current_row\<lparr>unit := Some (URIRef ''http://example.org/Unlabelled'')\<rparr>] =
     Inl IndexError \<and>
   [other_electrolyte_row] \<noteq> [] \<and>
   (\<exists>lines. electrolyte_display [other_electrolyte_row] = Inr lines)"
proof -
  have h: "\<exists>row \<in> set [test_time_row, current_row\<lparr>unit := Some (URIRef ''http://example.org/Unlabelled'')\<rparr>].
      isl (first_prefLabel example_battinfo (propertyClass row)) \<or>
      isl (first_prefLabel example_battinfo (unit row))"
    by (simp add: example_defs first_prefLabel_def)
  have v: "schema_display example_battinfo
      [test_time_row, current_row\<lparr>unit := Some (URIRef ''http://example.org/Unlabelled'')\<rparr>] =
     Inl IndexError"
    by (simp add: example_defs format_defs)
  have n: "[other_electrolyte_row] \<noteq> []"
    by simp
  from faults_halt [of example_battinfo
      "[test_time_row, current_row\<lparr>unit := Some (URIRef ''http://example.org/Unlabelled'')\<rparr>]"
      "[other_electrolyte_row]"] h v n
  show ?thesis by blast
qed

subsection \<open>The graph after parsing\<close>

text \<open>
  Claim C7. Every step that runs after parsing leaves the triples of the graph as they
  are: building the query, executing it (a query of the engine hands the graph back
  with the same triples), and formatting and printing the results, in both notebooks,
  whether the display step ends normally or with an error; at the end of a run the
  graph holds the parsed triples.
\<close>

theorem graph_read_only:
  "snd (graph_query select g q) = g \<and>
   graph (schema_query_cell hasMeasurementUnit s) = graph s \<and>
   graph (execute_cell select s) = graph s \<and>
   graph (snd (schema_display_cell battinfo s)) = graph s \<and>
   graph (electrolyte_query_cell iris t) = graph t \<and>
   graph (execute_cell eselect t) = graph t \<and>
   graph (snd (electrolyte_display_cell t)) = graph t \<and>
   graph (snd (schema_run battinfo hasMeasurementUnit select parsed)) = parsed \<and>
   graph (snd (electrolyte_run iris eselect parsed)) = parsed"
  by (simp add: graph_query_def schema_query_cell_def electrolyte_query_cell_def
      execute_cell_def schema_display_cell_def electrolyte_display_cell_def schema_run_def
      electrolyte_run_def parse_cell_def split: prod.splits option.splits)

subsection \<open>The electrolyte label\<close>

text \<open>
  Claim C8. For every non-empty sequence of rows, the \<open>Electrolyte:\<close> line of the
  electrolyte notebook shows the electrolyte label taken from the last row (its label
  when that is bound and true, its identifier otherwise); the labels of the rows before
  it are not printed. The line is followed by one component line per row, in order.
\<close>

theorem last_label_printed:
  "rows \<noteq> [] \<Longrightarrow>
   electrolyte_display rows =
     Inr ((''Electrolyte: '' @
           (case electrolyteLabel (last rows) of
              None \<Rightarrow> py_str (electrolyte (last rows))
            | Some t \<Rightarrow> if node_bool t then text_of t else py_str (electrolyte (last rows)))) #
          map (\<lambda>row. ''Component: '' @
                 (case componentLabel row of
                    None \<Rightarrow> py_str (component row)
                  | Some t \<Rightarrow> if node_bool t then text_of t else py_str (component row)) @
                 '', Volume Fraction: '' @ py_str (amount row)) rows)"
  by (simp add: electrolyte_display_eq electrolyte_label_def component_line_def
      component_label_def if_else_def py_str_def split: option.splits cong: map_cong)

theorem last_label_printed_witness:
  "[solvent_row, other_electrolyte_row] \<noteq> [] \<and>
   electrolyteLabel solvent_row \<noteq> electrolyteLabel other_electrolyte_row \<and>
   electrolyte_display [solvent_row, other_electrolyte_row] =
     Inr [''Electrolyte: LP57'',
          ''Component: ethylene carbonate, Volume Fraction: 0.5'',
          ''Component: http://example.org/EMC, Volume Fraction: 0.7''] \<and>
   [solvent_row, zero_label_row] \<noteq> [] \<and>
   electrolyte_display [solvent_row, zero_label_row] =
     Inr [''Electrolyte: http://example.org/electrolyte4'',
          ''Component: ethylene carbonate, Volume Fraction: 0.5'',
          ''Component: http://example.org/VC, Volume Fraction: 0.02'']"
proof -
  have n: "[solvent_row, other_electrolyte_row] \<noteq> []" "[solvent_row, zero_label_row] \<noteq> []"
    by simp_all
  have d: "electrolyteLabel solvent_row \<noteq> electrolyteLabel other_electrolyte_row"
    by (simp add: example_defs)
  have 1: "electrolyte_display [solvent_row, other_electrolyte_row] =
     Inr [''Electrolyte: LP57'',
          ''Component: ethylene carbonate, Volume Fraction: 0.5'',
          ''Component: http://example.org/EMC, Volume Fraction: 0.7'']"
    using last_label_printed [OF n(1)] by (simp add: example_defs py_str_def)
  have 2: "electrolyte_display [solvent_row, zero_label_row] =
     Inr [''Electrolyte: http://example.org/electrolyte4'',
          ''Component: ethylene carbonate, Volume Fraction: 0.5'',
          ''Component: http://example.org/VC, Volume Fraction: 0.02'']"
    using last_label_printed [OF n(2)] by (simp add: example_defs py_str_def)
  from n d 1 2 show ?thesis by blast
qed




subsection \<open>Determinism\<close>

text \<open>
  Claim C10, as stated, fails: two display steps of the electrolyte notebook on the
  same rows (none) print differently when one of them finds a value that an earlier
  execution of the cell has left in \<open>electrolyte_label\<close>.
\<close>

theorem stale_label_counterexample:
  "results \<lparr>graph = {}, query = [], results = ([] :: electrolyte_row list), output_var = [],
            label_var = None\<rparr> =
   results \<lparr>graph = {}, query = [], results = ([] :: electrolyte_row list), output_var = [],
            label_var = Some (Some (Literal ''LP30'' None (Some (PyStr ''LP30''))))\<rparr> \<and>
   fst (electrolyte_display_cell
     \<lparr>graph = {}, query = [], results = [], output_var = [], label_var = None\<rparr>) =
     Inl NameError \<and>
   fst (electrolyte_display_cell
     \<lparr>graph = {}, query = [], results = [], output_var = [],
      label_var = Some (Some (Literal ''LP30'' None (Some (PyStr ''LP30''))))\<rparr>) =
     Inr [''Electrolyte: LP30'']"
  by (simp add: electrolyte_display_cell_def electrolyte_print_def py_str_def)

text \<open>
  Claim C10, amended. The display step of the schema notebook prints the same lines, or
  ends with the same error, for the same rows and the same ontology, whatever else the
  notebook holds, and it reads the ontology at the property class and the unit of the
  rows only. The display step of the electrolyte notebook prints the same for the same
  rows when there is at least one row or when both notebooks hold the same value, or
  none, in \<open>electrolyte_label\<close>. Two runs of a notebook from the parsed document on,
  whose queries return the same rows, print the same, whatever their graphs, the IRIs
  spliced into their queries and their engines.
\<close>

theorem display_deterministic:
  "(results s = results s' \<longrightarrow>
      fst (schema_display_cell battinfo s) = fst (schema_display_cell battinfo s')) \<and>
   ((\<forall>row \<in> set rows.
       battinfo (map_option text_of (propertyClass row)) =
         battinfo' (map_option text_of (propertyClass row)) \<and>
       battinfo (map_option text_of (unit row)) =
         battinfo' (map_option text_of (unit row))) \<longrightarrow>
      schema_display battinfo rows = schema_display battinfo' rows) \<and>
   (results t = results t' \<and> (results t \<noteq> [] \<or> label_var t = label_var t') \<longrightarrow>
      fst (electrolyte_display_cell t) = fst (electrolyte_display_cell t')) \<and>
   (run1 (schema_query iri1) g1 = run2 (schema_query iri2) g2 \<longrightarrow>
      fst (schema_run battinfo iri1 run1 g1) = fst (schema_run battinfo iri2 run2 g2)) \<and>
   (erun1 (electrolyte_query iris1) g1 = erun2 (electrolyte_query iris2) g2 \<longrightarrow>
      fst (electrolyte_run iris1 erun1 g1) = fst (electrolyte_run iris2 erun2 g2))"
proof (intro conjI impI)
  assume "results s = results s'"
  then show "fst (schema_display_cell battinfo s) = fst (schema_display_cell battinfo s')"
    by (simp add: schema_display_cell_fst)
next
  assume "\<forall>row \<in> set rows.
       battinfo (map_option text_of (propertyClass row)) =
         battinfo' (map_option text_of (propertyClass row)) \<and>
       battinfo (map_option text_of (unit row)) =
         battinfo' (map_option text_of (unit row))"
  then have "schema_loop battinfo rows [] = schema_loop battinfo' rows []"
    by (rule schema_loop_cong)
  then show "schema_display battinfo rows = schema_display battinfo' rows"
    by (simp add: schema_display_def)
next
  assume "results t = results t' \<and> (results t \<noteq> [] \<or> label_var t = label_var t')"
  then show "fst (electrolyte_display_cell t) = fst (electrolyte_display_cell t')"
    by (auto simp: electrolyte_display_cell_fst electrolyte_loop_eq)
next
  assume "run1 (schema_query iri1) g1 = run2 (schema_query iri2) g2"
  then show "fst (schema_run battinfo iri1 run1 g1) = fst (schema_run battinfo iri2 run2 g2)"
    by (simp add: schema_run_def schema_display_cell_fst execute_cell_def graph_query_def
        schema_query_cell_def parse_cell_def new_schema_notebook_def)
next
  assume "erun1 (electrolyte_query iris1) g1 = erun2 (electrolyte_query iris2) g2"
  then show "fst (electrolyte_run iris1 erun1 g1) = fst (electrolyte_run iris2 erun2 g2)"
    by (simp add: electrolyte_run_def electrolyte_display_cell_fst execute_cell_def
        graph_query_def electrolyte_query_cell_def parse_cell_def new_electrolyte_notebook_def)
qed

theorem display_deterministic_witness:
  "results \<lparr>graph = {}, query = [], results = [voltage_row], output_var = [''stale'']\<rparr> =
   results \<lparr>graph = example_graph, query = [''SELECT''], results = [voltage_row], output_var = []\<rparr> \<and>
   fst (schema_display_cell example_battinfo
     \<lparr>graph = {}, query = [], results = [voltage_row], output_var = [''stale'']\<rparr>) =
   fst (schema_display_cell example_battinfo
     \<lparr>graph = example_graph, query = [''SELECT''], results = [voltage_row], output_var = []\<rparr>) \<and>
   schema_display example_battinfo [voltage_row] =
   schema_display
     (\<lambda>iri. if iri = Some ''http://example.org/TestTime'' then Inr None else example_battinfo iri)
     [voltage_row] \<and>
   fst (electrolyte_display_cell
     \<lparr>graph = {}, query = [], results = [solvent_row], output_var = [''stale''],
      label_var = Some None\<rparr>) =
   fst (electrolyte_display_cell
     \<lparr>graph = example_graph, query = [''SELECT''], results = [solvent_row], output_var = [],
      label_var = None\<rparr>) \<and>
   constant_engine [test_time_row] (schema_query ''http://example.org/hasMeasurementUnit'') example_graph =
   constant_engine [test_time_row] (schema_query ''http://example.org/unit'') {} \<and>
   fst (schema_run example_battinfo ''http://example.org/hasMeasurementUnit''
          (constant_engine [test_time_row]) example_graph) =
   fst (schema_run example_battinfo ''http://example.org/unit''
          (constant_engine [test_time_row]) {}) \<and>
   constant_engine [solvent_row] (electrolyte_query example_iris) example_graph =
   constant_engine [solvent_row] (electrolyte_query (example_iris\<lparr>hasSolvent := []\<rparr>)) {} \<and>
   fst (electrolyte_run example_iris (constant_engine [solvent_row]) example_graph) =
   fst (electrolyte_run (example_iris\<lparr>hasSolvent := []\<rparr>) (constant_engine [solvent_row]) {})"
proof -
  note d = display_deterministic [where
      s = "\<lparr>graph = {}, query = [], results = [voltage_row], output_var = [''stale'']\<rparr>"
      and s' = "\<lparr>graph = example_graph, query = [''SELECT''], results = [voltage_row],
                output_var = []\<rparr>"
      and battinfo = example_battinfo
      and battinfo' = "\<lambda>iri. if iri = Some ''http://example.org/TestTime'' then Inr None
                        else example_battinfo iri"
      and rows = "[voltage_row]"
      and t = "\<lparr>graph = {}, query = [], results = [solvent_row], output_var = [''stale''],
               label_var = Some None\<rparr>"
      and t' = "\<lparr>graph = example_graph, query = [''SELECT''], results = [solvent_row],
                output_var = [], label_var = None\<rparr>"
      and ?run1.0 = "constant_engine [test_time_row]"
      and ?iri1.0 = "''http://example.org/hasMeasurementUnit''"
      and ?g1.0 = example_graph
      and ?run2.0 = "constant_engine [test_time_row]"
      and ?iri2.0 = "''http://example.org/unit''"
      and ?g2.0 = "{}"
      and ?erun1.0 = "constant_engine [solvent_row]"
      and ?iris1.0 = example_iris
      and ?erun2.0 = "constant_engine [solvent_row]"
      and ?iris2.0 = "example_iris\<lparr>hasSolvent := []\<rparr>"]
  have h: "constant_engine [test_time_row] (schema_query ''http://example.org/hasMeasurementUnit'') example_graph =
      constant_engine [test_time_row] (schema_query ''http://example.org/unit'') {}"
    "constant_engine [solvent_row] (electrolyte_query example_iris) example_graph =
      constant_engine [solvent_row] (electrolyte_query (example_iris\<lparr>hasSolvent := []\<rparr>)) {}"
    by (simp_all add: constant_engine_def)
  have k: "\<forall>row \<in> set [voltage_row].
       example_battinfo (map_option text_of (propertyClass row)) =
         (\<lambda>iri. if iri = Some ''http://example.org/TestTime'' then Inr None
                 else example_battinfo iri) (map_option text_of (propertyClass row)) \<and>
       example_battinfo (map_option text_of (unit row)) =
         (\<lambda>iri. if iri = Some ''http://example.org/TestTime'' then Inr None
                 else example_battinfo iri) (map_option text_of (unit row))"
    by (simp add: voltage_row_def)
  from d h k show ?thesis
    by simp
qed

end
